theory Spec2Isabelle
  imports Main
begin

section \<open>The Model base class of molpal (src/molpal/models/base.py)\<close>

subsection \<open>Values, exceptions and the model object\<close>

text \<open>
  The streams handed to \<^verbatim>\<open>Model.apply\<close> are untyped Python iterables: an element is
  either an individual input (an identifier, a feature vector) or, when the caller has
  batched the stream already, a sequence of individual inputs. The batches built by
  \<^verbatim>\<open>batches\<close> are Python lists of stream elements. Both are values of one type: an
  opaque atom, or a sequence of values.
\<close>

datatype 'x py_val = Atom 'x | Seq "'x py_val list"

text \<open>
  An exception leaving \<^verbatim>\<open>apply\<close>: the \<^verbatim>\<open>ZeroDivisionError\<close> of the floor
  division in lines 128 and 130, or whatever a prediction method of the backend raised.
\<close>

datatype 'e exn = ZeroDivisionError | Raised 'e

text \<open>
  The abstract class has one attribute of its own, \<^verbatim>\<open>test_batch_size\<close>; the property
  \<^verbatim>\<open>type_\<close> and the methods \<^verbatim>\<open>get_means\<close> and \<^verbatim>\<open>get_means_and_vars\<close> are abstract
  and come from the subclass. A prediction method is a Python method: it may raise
  (\<open>Inl\<close>), and it may read and change state of the backend (a random generator, a cache),
  which is threaded through as a value of type \<open>'s\<close>. The predicted values are of an
  opaque type \<open>'v\<close>: \<^verbatim>\<open>apply\<close> only collects them.

  Three names differ from the source, where Isabelle does not take them: the property
  \<^verbatim>\<open>type_\<close> is the field \<open>type'\<close>, the method \<^verbatim>\<open>apply\<close> is \<open>Model_apply\<close>, and
  the parameter \<^verbatim>\<open>size\<close> is written \<open>sz\<close>.
\<close>

record ('x, 'v, 's, 'e) Model =
  type' :: string
  test_batch_size :: int
  get_means :: "'x py_val \<Rightarrow> 's \<Rightarrow> ('e + 'v list) \<times> 's"
  get_means_and_vars :: "'x py_val \<Rightarrow> 's \<Rightarrow> ('e + 'v list \<times> 'v list) \<times> 's"

text \<open>
  \<^verbatim>\<open>Model.__init__(self, test_batch_size, **kwargs)\<close>, lines 48 to 49: the argument is
  stored as it is; the keyword arguments are not looked at.
\<close>

definition Model_init ::
  "('x, 'v, 's, 'e) Model \<Rightarrow> int \<Rightarrow> ('x, 'v, 's, 'e) Model" where
  "Model_init self tbs = self\<lparr>test_batch_size := tbs\<rparr>"

subsection \<open>The helper batches\<close>

text \<open>
  Modelled from the spec: the function \<^verbatim>\<open>batches\<close> of \<^verbatim>\<open>molpal.models.utils\<close>, which
  base.py imports in line 10 and calls in line 131, and whose source is not among the
  source files. The specification (section 4.1, step 4) has it group the stream "into
  consecutive, non-overlapping batches of \<^verbatim>\<open>test_batch_size\<close> elements each, preserving
  original order; the final batch may be shorter than \<^verbatim>\<open>test_batch_size\<close>", and
  (section 8) an empty stream gives no batch at all. The specification speaks of positive
  chunk sizes only; for a chunk size that is not positive this model yields no batch, and
  no result below that is about the grouping rests on that choice.
\<close>

function batches :: "'a list \<Rightarrow> int \<Rightarrow> 'a list list" where
  "batches it chunk_size =
     (if chunk_size \<le> 0 \<or> it = [] then []
      else take (nat chunk_size) it # batches (drop (nat chunk_size) it) chunk_size)"
  by pat_completeness auto
termination
  by (relation "measure (\<lambda>(it, chunk_size). length it)") auto

declare batches.simps [simp del]

subsection \<open>apply\<close>

text \<open>
  Python's truth test on an \<^verbatim>\<open>Optional[int]\<close>, as in \<^verbatim>\<open>if batched_size:\<close> and
  \<^verbatim>\<open>... if size else None\<close>: \<^verbatim>\<open>None\<close> and \<^verbatim>\<open>0\<close> are false.
\<close>

fun truthy :: "int option \<Rightarrow> bool" where
  "truthy None = False"
| "truthy (Some n) = (n \<noteq> 0)"

text \<open>
  \<^verbatim>\<open>(size // d) + 1 if size else None\<close>, lines 128 and 130. Python's \<^verbatim>\<open>//\<close> on
  integers is floor division, as \<open>div\<close> on \<open>int\<close> is, and raises on a zero divisor; the
  division is evaluated only when \<^verbatim>\<open>size\<close> is true.
\<close>

fun estimate :: "int option \<Rightarrow> int \<Rightarrow> 'e exn + int option" where
  "estimate None d = Inr None"
| "estimate (Some n) d =
     (if n = 0 then Inr None
      else if d = 0 then Inl ZeroDivisionError
      else Inr (Some (n div d + 1)))"

text \<open>
  Lines 120 to 131 of \<^verbatim>\<open>apply\<close>: the choice of the stream and of the batch size. The
  result is the pair of the locals \<^verbatim>\<open>xs\<close> (the stream the loops iterate) and
  \<^verbatim>\<open>n_batches\<close> (the \<^verbatim>\<open>total\<close> handed to the progress bar) as they stand at line 133,
  or the exception raised before that. In the first branch \<^verbatim>\<open>batched_size\<close> is true,
  hence not zero. In the second, \<^verbatim>\<open>n_batches\<close> is computed before \<^verbatim>\<open>batches\<close> is
  called.
\<close>

definition apply_batching ::
  "('x, 'v, 's, 'e) Model \<Rightarrow> 'x py_val list \<Rightarrow> 'x py_val list \<Rightarrow> int option \<Rightarrow> int option
     \<Rightarrow> 'e exn + ('x py_val list \<times> int option)" where
  "apply_batching self x_ids x_feats batched_size sz =
     (let (xs, batched_size) =
            (if type' self = ''mpn'' then (x_ids, None) else (x_feats, batched_size))
      in if truthy batched_size then
           (case estimate sz (the batched_size) of
              Inl e \<Rightarrow> Inl e
            | Inr n_batches \<Rightarrow> Inr (xs, n_batches))
         else
           (case estimate sz (test_batch_size self) of
              Inl e \<Rightarrow> Inl e
            | Inr n_batches \<Rightarrow> Inr (map Seq (batches xs (test_batch_size self)), n_batches)))"

text \<open>
  The loop of lines 137 to 140, from the empty list \<^verbatim>\<open>means\<close> of line 133: one call of
  \<^verbatim>\<open>get_means\<close> for each element of \<^verbatim>\<open>xs\<close>, in order, its result appended to
  \<^verbatim>\<open>means\<close>. A call that raises ends the loop: the exception leaves with the state the
  call left behind, and the accumulated list is dropped. The progress bar only wraps the
  iteration.
\<close>

fun means_loop ::
  "('b \<Rightarrow> 's \<Rightarrow> ('e + 'v list) \<times> 's) \<Rightarrow> 'b list \<Rightarrow> 'v list \<Rightarrow> 's \<Rightarrow> ('e + 'v list) \<times> 's" where
  "means_loop gm [] means s = (Inr means, s)"
| "means_loop gm (batch_xs # xs) means s =
     (case gm batch_xs s of
        (Inl e, s') \<Rightarrow> (Inl e, s')
      | (Inr batch_means, s') \<Rightarrow> means_loop gm xs (means @ batch_means) s')"

text \<open>The loop of lines 142 to 146, with both accumulators.\<close>

fun means_vars_loop ::
  "('b \<Rightarrow> 's \<Rightarrow> ('e + 'v list \<times> 'v list) \<times> 's) \<Rightarrow> 'b list \<Rightarrow> 'v list \<Rightarrow> 'v list \<Rightarrow> 's
     \<Rightarrow> ('e + 'v list \<times> 'v list) \<times> 's" where
  "means_vars_loop gmv [] means variances s = (Inr (means, variances), s)"
| "means_vars_loop gmv (batch_xs # xs) means variances s =
     (case gmv batch_xs s of
        (Inl e, s') \<Rightarrow> (Inl e, s')
      | (Inr (batch_means, batch_vars), s') \<Rightarrow>
          means_vars_loop gmv xs (means @ batch_means) (variances @ batch_vars) s')"

text \<open>
  \<^verbatim>\<open>Model.apply(self, x_ids, x_feats, batched_size, size, mean_only)\<close>, lines 92 to 148,
  run from the backend state \<open>s\<close>: the returned pair \<^verbatim>\<open>(means, variances)\<close> or the
  exception, and the backend state afterwards.
\<close>

definition Model_apply ::
  "('x, 'v, 's, 'e) Model \<Rightarrow> 'x py_val list \<Rightarrow> 'x py_val list \<Rightarrow> int option \<Rightarrow> int option
     \<Rightarrow> bool \<Rightarrow> 's \<Rightarrow> ('e exn + 'v list \<times> 'v list) \<times> 's" where
  "Model_apply self x_ids x_feats batched_size sz mean_only s =
     (case apply_batching self x_ids x_feats batched_size sz of
        Inl e \<Rightarrow> (Inl e, s)
      | Inr (xs, n_batches) \<Rightarrow>
          if mean_only then
            (case means_loop (get_means self) xs [] s of
               (Inl e, s') \<Rightarrow> (Inl (Raised e), s')
             | (Inr means, s') \<Rightarrow> (Inr (means, []), s'))
          else
            (case means_vars_loop (get_means_and_vars self) xs [] [] s of
               (Inl e, s') \<Rightarrow> (Inl (Raised e), s')
             | (Inr (means, variances), s') \<Rightarrow> (Inr (means, variances), s')))"

text \<open>The two locals of lines 120 to 131, each on its own.\<close>

definition apply_xs ::
  "('x, 'v, 's, 'e) Model \<Rightarrow> 'x py_val list \<Rightarrow> 'x py_val list \<Rightarrow> int option \<Rightarrow> int option
     \<Rightarrow> 'e exn + 'x py_val list" where
  "apply_xs self x_ids x_feats batched_size sz =
     (case apply_batching self x_ids x_feats batched_size sz of
        Inl e \<Rightarrow> Inl e
      | Inr (xs, n_batches) \<Rightarrow> Inr xs)"

definition apply_n_batches ::
  "('x, 'v, 's, 'e) Model \<Rightarrow> 'x py_val list \<Rightarrow> 'x py_val list \<Rightarrow> int option \<Rightarrow> int option
     \<Rightarrow> 'e exn + int option" where
  "apply_n_batches self x_ids x_feats batched_size sz =
     (case apply_batching self x_ids x_feats batched_size sz of
        Inl e \<Rightarrow> Inl e
      | Inr (xs, n_batches) \<Rightarrow> Inr n_batches)"

subsection \<open>Observing the prediction calls\<close>

text \<open>
  To speak about the calls \<^verbatim>\<open>apply\<close> makes, a model is wrapped so that each prediction
  method, after doing what it did before, notes its argument at the end of a list kept
  beside the backend state. Nothing else changes.
\<close>

definition spy :: "('b \<Rightarrow> 's \<Rightarrow> 'r \<times> 's) \<Rightarrow> 'b \<Rightarrow> 's \<times> 'b list \<Rightarrow> 'r \<times> ('s \<times> 'b list)" where
  "spy m batch_xs = (\<lambda>(s, calls). case m batch_xs s of (r, s') \<Rightarrow> (r, (s', calls @ [batch_xs])))"

definition spied ::
  "('x, 'v, 's, 'e) Model \<Rightarrow> ('x, 'v, 's \<times> 'x py_val list, 'e) Model" where
  "spied self =
     \<lparr>type' = type' self, test_batch_size = test_batch_size self,
      get_means = spy (get_means self),
      get_means_and_vars = spy (get_means_and_vars self)\<rparr>"

subsection \<open>Small backends\<close>

text \<open>
  Concrete models on which the results below are instantiated. The inputs are natural
  numbers. \<open>doubling\<close> predicts twice the input as the mean and the input plus one as the
  variance, and counts its calls in its state; it refuses an argument that is not a
  sequence. \<open>fussy\<close> does the same but raises on a batch that holds the input 13.
  \<open>doubling_mpn\<close> is \<open>doubling\<close> declared as a message-passing network.
\<close>

fun mean_of :: "nat py_val \<Rightarrow> int" where
  "mean_of (Atom n) = 2 * int n"
| "mean_of (Seq xs) = 0"

fun var_of :: "nat py_val \<Rightarrow> int" where
  "var_of (Atom n) = int n + 1"
| "var_of (Seq xs) = 0"

definition doubling :: "(nat, int, nat, string) Model" where
  "doubling =
     \<lparr>type' = ''rf'', test_batch_size = 2,
      get_means = (\<lambda>b s. case b of
          Atom a \<Rightarrow> (Inl ''not a sequence'', Suc s)
        | Seq xs \<Rightarrow> (Inr (map mean_of xs), Suc s)),
      get_means_and_vars = (\<lambda>b s. case b of
          Atom a \<Rightarrow> (Inl ''not a sequence'', Suc s)
        | Seq xs \<Rightarrow> (Inr (map mean_of xs, map var_of xs), Suc s))\<rparr>"

definition doubling_mpn :: "(nat, int, nat, string) Model" where
  "doubling_mpn = doubling\<lparr>type' := ''mpn''\<rparr>"

definition fussy :: "(nat, int, nat, string) Model" where
  "fussy =
     \<lparr>type' = ''rf'', test_batch_size = 2,
      get_means = (\<lambda>b s. case b of
          Atom a \<Rightarrow> (Inl ''not a sequence'', Suc s)
        | Seq xs \<Rightarrow> if Atom 13 \<in> set xs then (Inl ''unlucky'', Suc s)
                    else (Inr (map mean_of xs), Suc s)),
      get_means_and_vars = (\<lambda>b s. case b of
          Atom a \<Rightarrow> (Inl ''not a sequence'', Suc s)
        | Seq xs \<Rightarrow> if Atom 13 \<in> set xs then (Inl ''unlucky'', Suc s)
                    else (Inr (map mean_of xs, map var_of xs), Suc s))\<rparr>"

text \<open>\<open>table\<close> is a backend without state: a pure function of each input.\<close>

definition table :: "(nat, int, unit, string) Model" where
  "table =
     \<lparr>type' = ''gp'', test_batch_size = 2,
      get_means = (\<lambda>b s. case b of
          Atom a \<Rightarrow> (Inl ''not a sequence'', s)
        | Seq xs \<Rightarrow> (Inr (map mean_of xs), s)),
      get_means_and_vars = (\<lambda>b s. case b of
          Atom a \<Rightarrow> (Inl ''not a sequence'', s)
        | Seq xs \<Rightarrow> (Inr (map mean_of xs, map var_of xs), s))\<rparr>"

section \<open>Properties\<close>

subsection \<open>The grouping\<close>

lemma concat_batches: "0 < n \<Longrightarrow> concat (batches xs n) = xs"
proof (induction xs n rule: batches.induct)
  case (1 it chunk_size)
  show ?case
  proof (cases "it = []")
    case True
    then show ?thesis by (simp add: batches.simps)
  next
    case False
    with 1 have "concat (batches (drop (nat chunk_size) it) chunk_size) = drop (nat chunk_size) it"
      by simp
    with False 1(2) show ?thesis
      by (subst batches.simps) simp
  qed
qed

lemma batches_size: "b \<in> set (batches xs n) \<Longrightarrow> b \<noteq> [] \<and> int (length b) \<le> n"
proof (induction xs n arbitrary: b rule: batches.induct)
  case (1 it chunk_size)
  from 1(2) have ne: "\<not> (chunk_size \<le> 0 \<or> it = [])"
    by (subst (asm) batches.simps) (auto split: if_splits)
  with 1(2) have "b = take (nat chunk_size) it \<or> b \<in> set (batches (drop (nat chunk_size) it) chunk_size)"
    by (subst (asm) batches.simps) (auto split: if_splits)
  then show ?case
  proof
    assume "b = take (nat chunk_size) it"
    with ne show ?thesis by auto
  next
    assume "b \<in> set (batches (drop (nat chunk_size) it) chunk_size)"
    with 1(1) ne show ?thesis by blast
  qed
qed

lemma batches_full: "b \<in> set (butlast (batches xs n)) \<Longrightarrow> int (length b) = n"
proof (induction xs n arbitrary: b rule: batches.induct)
  case (1 it chunk_size)
  from 1(2) have ne: "\<not> (chunk_size \<le> 0 \<or> it = [])"
    by (subst (asm) batches.simps) (auto split: if_splits)
  let ?rest = "batches (drop (nat chunk_size) it) chunk_size"
  from ne have eq: "batches it chunk_size = take (nat chunk_size) it # ?rest"
    by (subst batches.simps) simp
  show ?case
  proof (cases "?rest = []")
    case True
    with 1(2) eq show ?thesis by simp
  next
    case False
    then have "drop (nat chunk_size) it \<noteq> []"
      by (subst (asm) batches.simps) (auto split: if_splits)
    then have len: "nat chunk_size < length it" by simp
    from 1(2) eq False have "b = take (nat chunk_size) it \<or> b \<in> set (butlast ?rest)"
      by auto
    then show ?thesis
    proof
      assume "b = take (nat chunk_size) it"
      with len ne show ?thesis by auto
    next
      assume "b \<in> set (butlast ?rest)"
      with 1(1) ne show ?thesis by blast
    qed
  qed
qed

subsection \<open>The two loops\<close>

lemma means_loop_all2:
  assumes "\<forall>xs s. \<exists>ms s'. gm (Seq xs) s = (Inr ms, s') \<and> list_all2 R xs ms"
  shows "\<exists>ms s'. means_loop gm (map Seq bss) acc s = (Inr (acc @ ms), s') \<and> list_all2 R (concat bss) ms"
proof (induction bss arbitrary: acc s)
  case Nil
  then show ?case by simp
next
  case (Cons b bss)
  from assms obtain bm s1 where b: "gm (Seq b) s = (Inr bm, s1)" "list_all2 R b bm"
    by blast
  from Cons[of "acc @ bm" s1] obtain ms s' where
    r: "means_loop gm (map Seq bss) (acc @ bm) s1 = (Inr ((acc @ bm) @ ms), s')" "list_all2 R (concat bss) ms"
    by blast
  from b r have "means_loop gm (map Seq (b # bss)) acc s = (Inr (acc @ (bm @ ms)), s')"
    by simp
  moreover from b r have "list_all2 R (concat (b # bss)) (bm @ ms)"
    by (simp add: list_all2_appendI)
  ultimately show ?case by blast
qed

lemma means_vars_loop_all2:
  assumes "\<forall>xs s. \<exists>ms vs s'. gmv (Seq xs) s = (Inr (ms, vs), s') \<and> list_all2 R xs ms \<and> list_all2 Q xs vs"
  shows "\<exists>ms vs s'. means_vars_loop gmv (map Seq bss) acc vacc s = (Inr (acc @ ms, vacc @ vs), s')
           \<and> list_all2 R (concat bss) ms \<and> list_all2 Q (concat bss) vs"
proof (induction bss arbitrary: acc vacc s)
  case Nil
  then show ?case by simp
next
  case (Cons b bss)
  from assms obtain bm bv s1 where b: "gmv (Seq b) s = (Inr (bm, bv), s1)" "list_all2 R b bm" "list_all2 Q b bv"
    by blast
  from Cons[of "acc @ bm" "vacc @ bv" s1] obtain ms vs s' where
    r: "means_vars_loop gmv (map Seq bss) (acc @ bm) (vacc @ bv) s1 = (Inr ((acc @ bm) @ ms, (vacc @ bv) @ vs), s')"
       "list_all2 R (concat bss) ms" "list_all2 Q (concat bss) vs"
    by blast
  from b r have "means_vars_loop gmv (map Seq (b # bss)) acc vacc s = (Inr (acc @ (bm @ ms), vacc @ (bv @ vs)), s')"
    by simp
  moreover from b r have "list_all2 R (concat (b # bss)) (bm @ ms)" "list_all2 Q (concat (b # bss)) (bv @ vs)"
    by (simp_all add: list_all2_appendI)
  ultimately show ?case by blast
qed

lemma means_loop_pure:
  assumes "\<forall>xs s. gm (Seq xs) s = (Inr (map f xs), s)"
  shows "means_loop gm (map Seq bss) acc s = (Inr (acc @ map f (concat bss)), s)"
  using assms by (induction bss arbitrary: acc) simp_all

lemma means_vars_loop_pure:
  assumes "\<forall>xs s. gmv (Seq xs) s = (Inr (map f xs, map g xs), s)"
  shows "means_vars_loop gmv (map Seq bss) acc vacc s
           = (Inr (acc @ map f (concat bss), vacc @ map g (concat bss)), s)"
  using assms by (induction bss arbitrary: acc vacc) simp_all

lemma means_loop_fail:
  "k < length xs \<Longrightarrow> means_loop gm (take k xs) acc s = (Inr ms, s1) \<Longrightarrow> gm (xs ! k) s1 = (Inl e, s2)
     \<Longrightarrow> means_loop gm xs acc s = (Inl e, s2)"
proof (induction xs arbitrary: k acc s)
  case Nil
  then show ?case by simp
next
  case (Cons x xs)
  show ?case
  proof (cases k)
    case 0
    with Cons.prems show ?thesis by simp
  next
    case (Suc j)
    with Cons.prems obtain bm s' where x: "gm x s = (Inr bm, s')"
      by (auto split: prod.splits sum.splits)
    with Cons.prems Suc have "means_loop gm (take j xs) (acc @ bm) s' = (Inr ms, s1)" "gm (xs ! j) s1 = (Inl e, s2)" "j < length xs"
      by simp_all
    then have "means_loop gm xs (acc @ bm) s' = (Inl e, s2)"
      using Cons.IH by blast
    with x show ?thesis by simp
  qed
qed

lemma means_vars_loop_fail:
  "k < length xs \<Longrightarrow> means_vars_loop gmv (take k xs) acc vacc s = (Inr r, s1) \<Longrightarrow> gmv (xs ! k) s1 = (Inl e, s2)
     \<Longrightarrow> means_vars_loop gmv xs acc vacc s = (Inl e, s2)"
proof (induction xs arbitrary: k acc vacc s)
  case Nil
  then show ?case by simp
next
  case (Cons x xs)
  show ?case
  proof (cases k)
    case 0
    with Cons.prems show ?thesis by simp
  next
    case (Suc j)
    with Cons.prems obtain bm bv s' where x: "gmv x s = (Inr (bm, bv), s')"
      by (auto split: prod.splits sum.splits)
    with Cons.prems Suc have "means_vars_loop gmv (take j xs) (acc @ bm) (vacc @ bv) s' = (Inr r, s1)" "gmv (xs ! j) s1 = (Inl e, s2)" "j < length xs"
      by simp_all
    then have "means_vars_loop gmv xs (acc @ bm) (vacc @ bv) s' = (Inl e, s2)"
      using Cons.IH by blast
    with x show ?thesis by simp
  qed
qed

subsection \<open>The choice of stream and batch size\<close>

lemma estimate_Inl: "estimate sz d = Inl e \<longleftrightarrow> truthy sz \<and> d = 0 \<and> e = ZeroDivisionError"
  by (cases sz) auto

lemma estimate_nonzero: "d \<noteq> 0 \<Longrightarrow> \<exists>nb. estimate sz d = Inr nb"
  by (cases sz) auto

lemma estimate_truthy: "truthy bsz \<Longrightarrow> \<exists>nb. estimate sz (the bsz) = Inr nb"
  by (cases bsz) (auto intro: estimate_nonzero)

lemma estimate_Inr: "\<not> (truthy sz \<and> d = 0) \<Longrightarrow> \<exists>nb. estimate sz d = Inr nb"
  by (cases sz) auto

lemma estimate_zero: "truthy sz \<Longrightarrow> estimate sz 0 = Inl ZeroDivisionError"
  by (cases sz) auto

lemma apply_batching_given:
  assumes "type' self \<noteq> ''mpn''" "truthy bsz"
  shows "\<exists>nb. apply_batching self ids feats bsz sz = Inr (feats, nb)"
proof -
  from estimate_truthy[OF assms(2)] obtain nb :: "int option"
    where "estimate sz (the bsz) = (Inr nb :: 'd exn + int option)" by blast
  with assms show ?thesis by (simp add: apply_batching_def)
qed

lemma apply_batching_regroup:
  assumes "type' self = ''mpn'' \<or> \<not> truthy bsz" "\<not> (truthy sz \<and> test_batch_size self = 0)"
  shows "\<exists>nb. apply_batching self ids feats bsz sz
           = Inr (map Seq (batches (if type' self = ''mpn'' then ids else feats) (test_batch_size self)), nb)"
proof -
  from estimate_Inr[OF assms(2)] obtain nb :: "int option"
    where "estimate sz (test_batch_size self) = (Inr nb :: 'd exn + int option)" by blast
  with assms(1) show ?thesis by (auto simp: apply_batching_def)
qed

lemma apply_batching_zero:
  assumes "type' self = ''mpn'' \<or> \<not> truthy bsz" "truthy sz" "test_batch_size self = 0"
  shows "apply_batching self ids feats bsz sz = Inl ZeroDivisionError"
  using assms by (auto simp: apply_batching_def estimate_zero)

lemma apply_xs_eq:
  "apply_xs self ids feats bsz sz =
     (if type' self \<noteq> ''mpn'' \<and> truthy bsz then Inr feats
      else if truthy sz \<and> test_batch_size self = 0 then Inl ZeroDivisionError
      else Inr (map Seq (batches (if type' self = ''mpn'' then ids else feats) (test_batch_size self))))"
proof (cases "type' self \<noteq> ''mpn'' \<and> truthy bsz")
  case True
  with apply_batching_given[of self bsz ids feats sz] show ?thesis
    by (auto simp: apply_xs_def)
next
  case False
  then have r: "type' self = ''mpn'' \<or> \<not> truthy bsz" by blast
  show ?thesis
  proof (cases "truthy sz \<and> test_batch_size self = 0")
    case True
    with r False apply_batching_zero[of self bsz sz ids feats] show ?thesis
      by (simp add: apply_xs_def)
  next
    case z: False
    from apply_batching_regroup[OF r z, of ids feats] False z show ?thesis
      by (auto simp: apply_xs_def)
  qed
qed

lemma apply_n_batches_eq:
  "apply_n_batches self ids feats bsz sz =
     estimate sz (if type' self \<noteq> ''mpn'' \<and> truthy bsz then the bsz else test_batch_size self)"
  by (auto simp: apply_n_batches_def apply_batching_def split: sum.splits)

lemma Model_apply_xs:
  "Model_apply self ids feats bsz sz mo s =
     (case apply_xs self ids feats bsz sz of
        Inl e \<Rightarrow> (Inl e, s)
      | Inr xs \<Rightarrow>
          if mo then
            (case means_loop (get_means self) xs [] s of
               (Inl e, s') \<Rightarrow> (Inl (Raised e), s')
             | (Inr means, s') \<Rightarrow> (Inr (means, []), s'))
          else
            (case means_vars_loop (get_means_and_vars self) xs [] [] s of
               (Inl e, s') \<Rightarrow> (Inl (Raised e), s')
             | (Inr (means, variances), s') \<Rightarrow> (Inr (means, variances), s')))"
  by (simp add: Model_apply_def apply_xs_def split: sum.splits prod.splits)

lemma apply_xs_spied: "apply_xs (spied self) ids feats bsz sz = apply_xs self ids feats bsz sz"
  by (simp add: apply_xs_eq spied_def)

subsection \<open>The calls made\<close>

lemma spy_apply: "spy m b (s, calls) = (case m b s of (r, s') \<Rightarrow> (r, (s', calls @ [b])))"
  by (simp add: spy_def)

lemma means_loop_spy:
  "\<exists>k\<le>length xs. means_loop (spy gm) xs acc (s, calls)
        = (fst (means_loop gm xs acc s), snd (means_loop gm xs acc s), calls @ take k xs)
      \<and> ((\<exists>r. fst (means_loop gm xs acc s) = Inr r) \<longrightarrow> k = length xs)"
proof (induction xs arbitrary: acc s calls)
  case Nil
  then show ?case by simp
next
  case (Cons x xs)
  obtain r s' where x: "gm x s = (r, s')" by (cases "gm x s")
  show ?case
  proof (cases r)
    case (Inl e)
    with x have "means_loop (spy gm) (x # xs) acc (s, calls)
        = (fst (means_loop gm (x # xs) acc s), snd (means_loop gm (x # xs) acc s), calls @ take 1 (x # xs))"
      by (simp add: spy_apply)
    moreover from x Inl have "\<not> (\<exists>r. fst (means_loop gm (x # xs) acc s) = Inr r)" by simp
    ultimately show ?thesis by (intro exI[of _ 1]) simp
  next
    case (Inr bm)
    from Cons[of "acc @ bm" s' "calls @ [x]"] obtain k where k: "k \<le> length xs"
      "means_loop (spy gm) xs (acc @ bm) (s', calls @ [x])
        = (fst (means_loop gm xs (acc @ bm) s'), snd (means_loop gm xs (acc @ bm) s'), (calls @ [x]) @ take k xs)"
      "(\<exists>r. fst (means_loop gm xs (acc @ bm) s') = Inr r) \<longrightarrow> k = length xs"
      by blast
    from x Inr k show ?thesis
      by (intro exI[of _ "Suc k"]) (simp add: spy_apply)
  qed
qed

lemma means_vars_loop_spy:
  "\<exists>k\<le>length xs. means_vars_loop (spy gmv) xs acc vacc (s, calls)
        = (fst (means_vars_loop gmv xs acc vacc s), snd (means_vars_loop gmv xs acc vacc s), calls @ take k xs)
      \<and> ((\<exists>r. fst (means_vars_loop gmv xs acc vacc s) = Inr r) \<longrightarrow> k = length xs)"
proof (induction xs arbitrary: acc vacc s calls)
  case Nil
  then show ?case by simp
next
  case (Cons x xs)
  obtain r s' where x: "gmv x s = (r, s')" by (cases "gmv x s")
  show ?case
  proof (cases r)
    case (Inl e)
    with x have "means_vars_loop (spy gmv) (x # xs) acc vacc (s, calls)
        = (fst (means_vars_loop gmv (x # xs) acc vacc s), snd (means_vars_loop gmv (x # xs) acc vacc s),
           calls @ take 1 (x # xs))"
      by (simp add: spy_apply)
    moreover from x Inl have "\<not> (\<exists>r. fst (means_vars_loop gmv (x # xs) acc vacc s) = Inr r)" by simp
    ultimately show ?thesis by (intro exI[of _ 1]) simp
  next
    case (Inr bmv)
    obtain bm bv where bmv: "bmv = (bm, bv)" by (cases bmv)
    from Cons[of "acc @ bm" "vacc @ bv" s' "calls @ [x]"] obtain k where k: "k \<le> length xs"
      "means_vars_loop (spy gmv) xs (acc @ bm) (vacc @ bv) (s', calls @ [x])
        = (fst (means_vars_loop gmv xs (acc @ bm) (vacc @ bv) s'),
           snd (means_vars_loop gmv xs (acc @ bm) (vacc @ bv) s'), (calls @ [x]) @ take k xs)"
      "(\<exists>r. fst (means_vars_loop gmv xs (acc @ bm) (vacc @ bv) s') = Inr r) \<longrightarrow> k = length xs"
      by blast
    from x Inr bmv k show ?thesis
      by (intro exI[of _ "Suc k"]) (simp add: spy_apply)
  qed
qed

lemma Model_apply_spied:
  assumes "apply_xs self ids feats bsz sz = Inr xs"
  shows "\<exists>k\<le>length xs. Model_apply (spied self) ids feats bsz sz mo (s, [])
            = (fst (Model_apply self ids feats bsz sz mo s),
               snd (Model_apply self ids feats bsz sz mo s), take k xs)
          \<and> ((\<exists>r. fst (Model_apply self ids feats bsz sz mo s) = Inr r) \<longrightarrow> k = length xs)"
proof (cases mo)
  case True
  from means_loop_spy[of xs "get_means self" "[]" s "[]"] obtain k where k: "k \<le> length xs"
    "means_loop (spy (get_means self)) xs [] (s, [])
       = (fst (means_loop (get_means self) xs [] s), snd (means_loop (get_means self) xs [] s), take k xs)"
    "(\<exists>r. fst (means_loop (get_means self) xs [] s) = Inr r) \<longrightarrow> k = length xs"
    by auto
  have g: "get_means (spied self) = spy (get_means self)" by (simp add: spied_def)
  obtain r s' where L: "means_loop (get_means self) xs [] s = (r, s')"
    by (cases "means_loop (get_means self) xs [] s")
  from True assms k L g show ?thesis
    by (intro exI[of _ k]) (cases r; simp add: Model_apply_xs apply_xs_spied)
next
  case False
  from means_vars_loop_spy[of xs "get_means_and_vars self" "[]" "[]" s "[]"] obtain k where k: "k \<le> length xs"
    "means_vars_loop (spy (get_means_and_vars self)) xs [] [] (s, [])
       = (fst (means_vars_loop (get_means_and_vars self) xs [] [] s),
          snd (means_vars_loop (get_means_and_vars self) xs [] [] s), take k xs)"
    "(\<exists>r. fst (means_vars_loop (get_means_and_vars self) xs [] [] s) = Inr r) \<longrightarrow> k = length xs"
    by auto
  have g: "get_means_and_vars (spied self) = spy (get_means_and_vars self)" by (simp add: spied_def)
  obtain r s' where L: "means_vars_loop (get_means_and_vars self) xs [] [] s = (r, s')"
    by (cases "means_vars_loop (get_means_and_vars self) xs [] [] s")
  from False assms k L g show ?thesis
    by (intro exI[of _ k]) (cases r; auto simp add: Model_apply_xs apply_xs_spied)
qed

section \<open>The claims\<close>

subsection \<open>C9: the batch size of a constructed model\<close>

text \<open>
  The claim C9 has every constructed model carry a positive \<^verbatim>\<open>test_batch_size\<close>. The
  constructor checks nothing: built with 0, the model has batch size 0.
\<close>

theorem C9_counterexample: "\<not> 0 < test_batch_size (Model_init doubling 0)"
  by (simp add: Model_init_def)

text \<open>
  C9, as the code has it: a model constructed with a positive \<^verbatim>\<open>test_batch_size\<close>
  argument carries exactly that positive value, and \<^verbatim>\<open>apply\<close>, which divides by it
  when it groups the stream itself, then never raises \<^verbatim>\<open>ZeroDivisionError\<close>.
\<close>

theorem C9_init_stores_argument:
  assumes "0 < tbs"
  shows "test_batch_size (Model_init self tbs) = tbs
       \<and> 0 < test_batch_size (Model_init self tbs)
       \<and> apply_batching (Model_init self tbs) ids feats bsz sz \<noteq> Inl ZeroDivisionError"
proof -
  have t: "test_batch_size (Model_init self tbs) = tbs" by (simp add: Model_init_def)
  have "apply_batching (Model_init self tbs) ids feats bsz sz \<noteq> Inl ZeroDivisionError"
  proof (cases "type' (Model_init self tbs) \<noteq> ''mpn'' \<and> truthy bsz")
    case True
    with apply_batching_given[of "Model_init self tbs" bsz ids feats sz] show ?thesis by auto
  next
    case False
    then have "type' (Model_init self tbs) = ''mpn'' \<or> \<not> truthy bsz" by blast
    moreover from assms t have "\<not> (truthy sz \<and> test_batch_size (Model_init self tbs) = 0)" by simp
    ultimately show ?thesis
      using apply_batching_regroup[of "Model_init self tbs" bsz sz ids feats] by auto
  qed
  with t assms show ?thesis by simp
qed

theorem C9_witness:
  "(0::int) < 2 \<and> test_batch_size (Model_init doubling 2) = 2
     \<and> apply_batching (Model_init doubling 2) [] [Atom 1] None (Some 3) \<noteq> Inl ZeroDivisionError"
  using C9_init_stores_argument[of 2 doubling "[]" "[Atom 1]" None "Some 3"] by simp

subsection \<open>C7: the estimated number of batches\<close>

text \<open>
  The claim C7 has the estimate be \<open>floor (size / batch size) + 1\<close> whenever the size is
  known. A known size of 0 is false in line 130, and the estimate is \<^verbatim>\<open>None\<close>, not 1.
\<close>

theorem C7_counterexample:
  "apply_n_batches doubling [] [] None (Some 0) \<noteq> Inr (Some (0 div test_batch_size doubling + 1))"
  by (simp add: apply_n_batches_def apply_batching_def doubling_def)

text \<open>
  C7, as the code has it: with a size that is known and not zero the estimate is
  \<open>floor (size / effective) + 1\<close>, where the effective batch size is \<^verbatim>\<open>batched_size\<close>
  when that is set, not zero and the model is not an MPN, and \<^verbatim>\<open>test_batch_size\<close>
  otherwise (an effective batch size of 0 raises \<^verbatim>\<open>ZeroDivisionError\<close>); with a size
  that is unknown or zero the estimate is \<^verbatim>\<open>None\<close>. For size 101 and
  \<^verbatim>\<open>test_batch_size\<close> 50 the estimate is 3.
\<close>

theorem C7_estimate:
  "apply_n_batches self ids feats bsz sz =
     (let effective = (if type' self \<noteq> ''mpn'' \<and> truthy bsz then the bsz else test_batch_size self)
      in if \<not> truthy sz then Inr None
         else if effective = 0 then Inl ZeroDivisionError
         else Inr (Some (the sz div effective + 1)))
   \<and> (test_batch_size self = 50 \<and> (type' self = ''mpn'' \<or> \<not> truthy bsz)
        \<longrightarrow> apply_n_batches self ids feats bsz (Some 101) = Inr (Some 3))"
  by (cases sz) (auto simp: apply_n_batches_eq Let_def)

theorem C7_witness:
  "test_batch_size (Model_init doubling 50) = 50
     \<and> apply_n_batches (Model_init doubling 50) [] [] None (Some 101) = Inr (Some 3)
     \<and> apply_n_batches (Model_init doubling 50) [] [] (Some 10) (Some 101) = Inr (Some 11)
     \<and> apply_n_batches (Model_init doubling 50) [] [] None None = Inr None"
  using C7_estimate[of "Model_init doubling 50" "[]" "[]" None "Some 101"]
    C7_estimate[of "Model_init doubling 50" "[]" "[]" "Some 10" "Some 101"]
    C7_estimate[of "Model_init doubling 50" "[]" "[]" None None]
  by (simp add: Model_init_def doubling_def)

subsection \<open>C10: a batched size of zero\<close>

text \<open>
  C10: for a model that is not an MPN, \<^verbatim>\<open>batched_size = 0\<close> behaves as
  \<^verbatim>\<open>batched_size = None\<close> does: same outcome of \<^verbatim>\<open>apply\<close>, the feature stream
  grouped by \<^verbatim>\<open>batches\<close> with \<^verbatim>\<open>test_batch_size\<close>, and the estimate computed from
  \<^verbatim>\<open>test_batch_size\<close>.
\<close>

theorem C10_zero_batched_size_is_unset:
  assumes "type' self \<noteq> ''mpn''"
  shows "Model_apply self ids feats (Some 0) sz mo s = Model_apply self ids feats None sz mo s
       \<and> apply_batching self ids feats (Some 0) sz = apply_batching self ids feats None sz
       \<and> apply_xs self ids feats (Some 0) sz =
           (if truthy sz \<and> test_batch_size self = 0 then Inl ZeroDivisionError
            else Inr (map Seq (batches feats (test_batch_size self))))
       \<and> apply_n_batches self ids feats (Some 0) sz = estimate sz (test_batch_size self)"
proof -
  have b: "apply_batching self ids feats (Some 0) sz = apply_batching self ids feats None sz"
    by (simp add: apply_batching_def)
  then have "Model_apply self ids feats (Some 0) sz mo s = Model_apply self ids feats None sz mo s"
    by (simp add: Model_apply_def)
  with b assms show ?thesis
    by (simp add: apply_xs_eq apply_n_batches_eq)
qed

theorem C10_witness:
  "type' doubling \<noteq> ''mpn''
     \<and> Model_apply doubling [] [Atom 1, Atom 2, Atom 3] (Some 0) (Some 3) False 0
         = (Inr ([2, 4, 6], [2, 3, 4]), 2)
     \<and> Model_apply doubling [] [Atom 1, Atom 2, Atom 3] None (Some 3) False 0
         = (Inr ([2, 4, 6], [2, 3, 4]), 2)
     \<and> apply_n_batches doubling [] [Atom 1, Atom 2, Atom 3] (Some 0) (Some 3) = Inr (Some 2)"
proof -
  have t: "type' doubling \<noteq> ''mpn''" by (simp add: doubling_def)
  have "Model_apply doubling [] [Atom 1, Atom 2, Atom 3] None (Some 3) False 0
         = (Inr ([2, 4, 6], [2, 3, 4]), 2)"
    by (simp add: Model_apply_def apply_batching_def doubling_def batches.simps)
  with t C10_zero_batched_size_is_unset[OF t, of "[]" "[Atom 1, Atom 2, Atom 3]" "Some 3" False 0]
  show ?thesis by (simp add: doubling_def)
qed

subsection \<open>C8: the size argument\<close>

lemma apply_xs_size:
  assumes "apply_xs self ids feats bsz sz = Inr xs" "apply_xs self ids feats bsz sz' = Inr xs'"
  shows "xs = xs'"
  using assms by (auto simp: apply_xs_eq split: if_splits)

lemma apply_xs_size_eq:
  assumes "test_batch_size self \<noteq> 0"
  shows "apply_xs self ids feats bsz sz = apply_xs self ids feats bsz sz'"
  using assms by (simp add: apply_xs_eq)

text \<open>
  C8: \<^verbatim>\<open>size\<close> only feeds the estimate handed to the progress bar. Whatever two values
  it takes, two calls of \<^verbatim>\<open>apply\<close> that return, return the same pair
  \<^verbatim>\<open>(means, variances)\<close> and leave the backend in the same state; and for a model
  whose \<^verbatim>\<open>test_batch_size\<close> is not zero the two calls have the same outcome altogether,
  exceptions included. (With \<^verbatim>\<open>test_batch_size = 0\<close> the estimate itself divides by
  zero when the size is known and not zero.)
\<close>

theorem C8_size_is_cosmetic:
  "(test_batch_size self \<noteq> 0 \<longrightarrow>
      Model_apply self ids feats bsz sz mo s = Model_apply self ids feats bsz sz' mo s)
   \<and> (Model_apply self ids feats bsz sz mo s = (Inr r, t)
        \<and> Model_apply self ids feats bsz sz' mo s = (Inr r', t') \<longrightarrow> r = r' \<and> t = t')"
proof (intro conjI impI)
  assume "test_batch_size self \<noteq> 0"
  from apply_xs_size_eq[OF this, of ids feats bsz sz sz']
  show "Model_apply self ids feats bsz sz mo s = Model_apply self ids feats bsz sz' mo s"
    by (simp add: Model_apply_xs)
next
  assume a: "Model_apply self ids feats bsz sz mo s = (Inr r, t)
        \<and> Model_apply self ids feats bsz sz' mo s = (Inr r', t')"
  then obtain xs xs' where x: "apply_xs self ids feats bsz sz = Inr xs" "apply_xs self ids feats bsz sz' = Inr xs'"
    by (auto simp: Model_apply_xs split: sum.splits)
  then have "xs = xs'" by (rule apply_xs_size)
  with x have "Model_apply self ids feats bsz sz mo s = Model_apply self ids feats bsz sz' mo s"
    by (simp add: Model_apply_xs)
  with a show "r = r'" "t = t'" by auto
qed

theorem C8_witness:
  "test_batch_size doubling \<noteq> 0
   \<and> Model_apply doubling [] [Atom 1, Atom 2, Atom 3] None None False 0 = (Inr ([2, 4, 6], [2, 3, 4]), 2)
   \<and> Model_apply doubling [] [Atom 1, Atom 2, Atom 3] None (Some 7) False 0 = (Inr ([2, 4, 6], [2, 3, 4]), 2)"
proof -
  have t: "test_batch_size doubling \<noteq> 0" by (simp add: doubling_def)
  have "Model_apply doubling [] [Atom 1, Atom 2, Atom 3] None None False 0 = (Inr ([2, 4, 6], [2, 3, 4]), 2)"
    by (simp add: Model_apply_def apply_batching_def doubling_def batches.simps)
  with t C8_size_is_cosmetic[of doubling "[]" "[Atom 1, Atom 2, Atom 3]" None None False 0 "Some 7"]
  show ?thesis by simp
qed

subsection \<open>C3: models that predict on the identifiers\<close>

text \<open>
  C3: for a model of type \<^verbatim>\<open>'mpn'\<close>, the outcome of \<^verbatim>\<open>apply\<close> does not depend on
  the feature stream or on \<^verbatim>\<open>batched_size\<close>; the stream iterated is
  \<^verbatim>\<open>batches(x_ids, test_batch_size)\<close>; and the prediction calls receive those batches
  of identifiers, in order: all of them when \<^verbatim>\<open>apply\<close> returns, and the first \<open>k\<close> of
  them when it raises.
\<close>

theorem C3_mpn_consumes_identifiers:
  assumes "type' self = ''mpn''"
  shows "Model_apply self ids feats bsz sz mo s = Model_apply self ids feats' bsz' sz mo s
       \<and> apply_xs self ids feats bsz sz =
           (if truthy sz \<and> test_batch_size self = 0 then Inl ZeroDivisionError
            else Inr (map Seq (batches ids (test_batch_size self))))
       \<and> (\<exists>k\<le>length (batches ids (test_batch_size self)).
             Model_apply (spied self) ids feats bsz sz mo (s, [])
               = (fst (Model_apply self ids feats bsz sz mo s),
                  snd (Model_apply self ids feats bsz sz mo s),
                  take k (map Seq (batches ids (test_batch_size self))))
             \<and> ((\<exists>r. fst (Model_apply self ids feats bsz sz mo s) = Inr r)
                   \<longrightarrow> k = length (batches ids (test_batch_size self))))"
proof -
  let ?B = "map Seq (batches ids (test_batch_size self))"
  from assms have x: "apply_xs self ids feats bsz sz =
           (if truthy sz \<and> test_batch_size self = 0 then Inl ZeroDivisionError else Inr ?B)"
    by (simp add: apply_xs_eq)
  from assms have "apply_xs self ids feats bsz sz = apply_xs self ids feats' bsz' sz"
    by (simp add: apply_xs_eq)
  then have i: "Model_apply self ids feats bsz sz mo s = Model_apply self ids feats' bsz' sz mo s"
    by (simp add: Model_apply_xs)
  have "\<exists>k\<le>length ?B. Model_apply (spied self) ids feats bsz sz mo (s, [])
            = (fst (Model_apply self ids feats bsz sz mo s),
               snd (Model_apply self ids feats bsz sz mo s), take k ?B)
          \<and> ((\<exists>r. fst (Model_apply self ids feats bsz sz mo s) = Inr r) \<longrightarrow> k = length ?B)"
  proof (cases "truthy sz \<and> test_batch_size self = 0")
    case True
    with x have "apply_xs self ids feats bsz sz = Inl ZeroDivisionError" by simp
    then have "Model_apply (spied self) ids feats bsz sz mo (s, []) = (Inl ZeroDivisionError, s, [])"
      "Model_apply self ids feats bsz sz mo s = (Inl ZeroDivisionError, s)"
      by (simp_all add: Model_apply_xs apply_xs_spied)
    then show ?thesis by (intro exI[of _ 0]) simp
  next
    case False
    with x have "apply_xs self ids feats bsz sz = Inr ?B" by simp
    then show ?thesis by (rule Model_apply_spied)
  qed
  with x i show ?thesis by simp
qed

theorem C3_witness:
  "type' doubling_mpn = ''mpn''
   \<and> Model_apply doubling_mpn [Atom 1, Atom 2, Atom 3] [Seq [Atom 7], Seq [Atom 8]] (Some 1) None True 0
       = Model_apply doubling_mpn [Atom 1, Atom 2, Atom 3] [] None None True 0
   \<and> apply_xs doubling_mpn [Atom 1, Atom 2, Atom 3] [Seq [Atom 7], Seq [Atom 8]] (Some 1) None
       = Inr [Seq [Atom 1, Atom 2], Seq [Atom 3]]
   \<and> Model_apply (spied doubling_mpn) [Atom 1, Atom 2, Atom 3] [Seq [Atom 7], Seq [Atom 8]] (Some 1) None True (0, [])
       = (Inr ([2, 4, 6], []), 2, [Seq [Atom 1, Atom 2], Seq [Atom 3]])"
proof -
  have t: "type' doubling_mpn = ''mpn''" by (simp add: doubling_mpn_def)
  have b: "batches [Atom 1, Atom 2, Atom (3::nat)] (test_batch_size doubling_mpn) = [[Atom 1, Atom 2], [Atom 3]]"
    by (simp add: doubling_mpn_def doubling_def batches.simps)
  have e: "Model_apply (spied doubling_mpn) [Atom 1, Atom 2, Atom 3] [Seq [Atom 7], Seq [Atom 8]] (Some 1) None True (0, [])
       = (Inr ([2, 4, 6], []), 2, [Seq [Atom 1, Atom 2], Seq [Atom 3]])"
    by (simp add: Model_apply_def apply_batching_def doubling_mpn_def doubling_def spied_def spy_apply batches.simps)
  from t b e C3_mpn_consumes_identifiers[OF t, of "[Atom 1, Atom 2, Atom 3]" "[Seq [Atom 7], Seq [Atom 8]]"
      "Some 1" None True 0 "[]" None]
  show ?thesis by simp
qed

subsection \<open>C5: a prediction call that raises\<close>

lemma spied_methods:
  "get_means (spied self) = spy (get_means self)"
  "get_means_and_vars (spied self) = spy (get_means_and_vars self)"
  by (simp_all add: spied_def)

lemma means_loop_spy_fail:
  assumes "k < length xs" "means_loop gm (take k xs) acc s = (Inr ms, s1)" "gm (xs ! k) s1 = (Inl e, s2)"
  shows "means_loop (spy gm) xs acc (s, calls) = (Inl e, s2, calls @ take (Suc k) xs)"
proof -
  from means_loop_spy[of "take k xs" gm acc s calls] assms(1,2)
  have "means_loop (spy gm) (take k xs) acc (s, calls) = (Inr ms, s1, calls @ take k xs)"
    by auto
  moreover from assms(3) have "spy gm (xs ! k) (s1, calls @ take k xs) = (Inl e, s2, (calls @ take k xs) @ [xs ! k])"
    by (simp add: spy_apply)
  ultimately have "means_loop (spy gm) xs acc (s, calls) = (Inl e, s2, (calls @ take k xs) @ [xs ! k])"
    using assms(1) by (rule means_loop_fail[rotated])
  with assms(1) show ?thesis by (simp add: take_Suc_conv_app_nth)
qed

lemma means_vars_loop_spy_fail:
  assumes "k < length xs" "means_vars_loop gmv (take k xs) acc vacc s = (Inr r, s1)"
    "gmv (xs ! k) s1 = (Inl e, s2)"
  shows "means_vars_loop (spy gmv) xs acc vacc (s, calls) = (Inl e, s2, calls @ take (Suc k) xs)"
proof -
  from means_vars_loop_spy[of "take k xs" gmv acc vacc s calls] assms(1,2)
  have "means_vars_loop (spy gmv) (take k xs) acc vacc (s, calls) = (Inr r, s1, calls @ take k xs)"
    by auto
  moreover from assms(3) have "spy gmv (xs ! k) (s1, calls @ take k xs) = (Inl e, s2, (calls @ take k xs) @ [xs ! k])"
    by (simp add: spy_apply)
  ultimately have "means_vars_loop (spy gmv) xs acc vacc (s, calls) = (Inl e, s2, (calls @ take k xs) @ [xs ! k])"
    using assms(1) by (rule means_vars_loop_fail[rotated])
  with assms(1) show ?thesis by (simp add: take_Suc_conv_app_nth)
qed

text \<open>
  C5: let \<open>xs\<close> be the stream of batches \<^verbatim>\<open>apply\<close> iterates, let the calls on its first
  \<open>k\<close> batches return, and let the call on the next batch, \<open>xs ! k\<close>, raise \<open>e\<close>. Then
  \<^verbatim>\<open>apply\<close> raises \<open>e\<close> and returns nothing (the means and variances collected so far
  are not part of the outcome), the backend is left in the state the failing call left
  it in, and the calls made are those on the first \<open>k + 1\<close> batches and no other. This
  holds on the path of \<^verbatim>\<open>get_means\<close> and on the path of \<^verbatim>\<open>get_means_and_vars\<close>.
\<close>

theorem C5_failure_propagates:
  assumes "apply_xs self ids feats bsz sz = Inr xs" "k < length xs"
  shows "(means_loop (get_means self) (take k xs) [] s = (Inr ms, s1)
            \<and> get_means self (xs ! k) s1 = (Inl e, s2)
          \<longrightarrow> Model_apply self ids feats bsz sz True s = (Inl (Raised e), s2)
            \<and> Model_apply (spied self) ids feats bsz sz True (s, [])
                = (Inl (Raised e), s2, take (Suc k) xs))
       \<and> (means_vars_loop (get_means_and_vars self) (take k xs) [] [] s = (Inr mv, t1)
            \<and> get_means_and_vars self (xs ! k) t1 = (Inl e', t2)
          \<longrightarrow> Model_apply self ids feats bsz sz False s = (Inl (Raised e'), t2)
            \<and> Model_apply (spied self) ids feats bsz sz False (s, [])
                = (Inl (Raised e'), t2, take (Suc k) xs))"
proof (intro conjI impI)
  assume a: "means_loop (get_means self) (take k xs) [] s = (Inr ms, s1)
            \<and> get_means self (xs ! k) s1 = (Inl e, s2)"
  then have "means_loop (get_means self) xs [] s = (Inl e, s2)"
    using assms(2) by (blast intro: means_loop_fail)
  with assms(1) show "Model_apply self ids feats bsz sz True s = (Inl (Raised e), s2)"
    by (simp add: Model_apply_xs)
  from a assms(2) have "means_loop (spy (get_means self)) xs [] (s, []) = (Inl e, s2, [] @ take (Suc k) xs)"
    by (blast intro: means_loop_spy_fail)
  with assms(1) show "Model_apply (spied self) ids feats bsz sz True (s, [])
                = (Inl (Raised e), s2, take (Suc k) xs)"
    by (simp add: Model_apply_xs apply_xs_spied spied_methods)
next
  assume a: "means_vars_loop (get_means_and_vars self) (take k xs) [] [] s = (Inr mv, t1)
            \<and> get_means_and_vars self (xs ! k) t1 = (Inl e', t2)"
  then have "means_vars_loop (get_means_and_vars self) xs [] [] s = (Inl e', t2)"
    using assms(2) by (blast intro: means_vars_loop_fail)
  with assms(1) show "Model_apply self ids feats bsz sz False s = (Inl (Raised e'), t2)"
    by (simp add: Model_apply_xs)
  from a assms(2) have "means_vars_loop (spy (get_means_and_vars self)) xs [] [] (s, [])
      = (Inl e', t2, [] @ take (Suc k) xs)"
    by (blast intro: means_vars_loop_spy_fail)
  with assms(1) show "Model_apply (spied self) ids feats bsz sz False (s, [])
                = (Inl (Raised e'), t2, take (Suc k) xs)"
    by (simp add: Model_apply_xs apply_xs_spied spied_methods)
qed

theorem C5_witness:
  "apply_xs fussy [] [Atom 1, Atom 2, Atom 13, Atom 4, Atom 5] None None
     = Inr [Seq [Atom 1, Atom 2], Seq [Atom 13, Atom 4], Seq [Atom 5]]
   \<and> means_loop (get_means fussy) [Seq [Atom 1, Atom 2]] [] 0 = (Inr [2, 4], 1)
   \<and> get_means fussy (Seq [Atom 13, Atom 4]) 1 = (Inl ''unlucky'', 2)
   \<and> means_vars_loop (get_means_and_vars fussy) [Seq [Atom 1, Atom 2]] [] [] 0 = (Inr ([2, 4], [2, 3]), 1)
   \<and> get_means_and_vars fussy (Seq [Atom 13, Atom 4]) 1 = (Inl ''unlucky'', 2)
   \<and> Model_apply fussy [] [Atom 1, Atom 2, Atom 13, Atom 4, Atom 5] None None True 0
       = (Inl (Raised ''unlucky''), 2)
   \<and> Model_apply (spied fussy) [] [Atom 1, Atom 2, Atom 13, Atom 4, Atom 5] None None True (0, [])
       = (Inl (Raised ''unlucky''), 2, [Seq [Atom 1, Atom 2], Seq [Atom 13, Atom 4]])
   \<and> Model_apply fussy [] [Atom 1, Atom 2, Atom 13, Atom 4, Atom 5] None None False 0
       = (Inl (Raised ''unlucky''), 2)
   \<and> Model_apply (spied fussy) [] [Atom 1, Atom 2, Atom 13, Atom 4, Atom 5] None None False (0, [])
       = (Inl (Raised ''unlucky''), 2, [Seq [Atom 1, Atom 2], Seq [Atom 13, Atom 4]])"
proof -
  let ?xs = "[Seq [Atom 1, Atom 2], Seq [Atom 13, Atom 4], Seq [Atom (5::nat)]]"
  have x: "apply_xs fussy [] [Atom 1, Atom 2, Atom 13, Atom 4, Atom 5] None None = Inr ?xs"
    by (simp add: apply_xs_def apply_batching_def fussy_def batches.simps)
  have k: "(1::nat) < length ?xs" by simp
  have m: "means_loop (get_means fussy) (take 1 ?xs) [] 0 = (Inr [2, 4], 1)"
    "get_means fussy (?xs ! 1) 1 = (Inl ''unlucky'', 2)"
    by (simp_all add: fussy_def)
  have v: "means_vars_loop (get_means_and_vars fussy) (take 1 ?xs) [] [] 0 = (Inr ([2, 4], [2, 3]), 1)"
    "get_means_and_vars fussy (?xs ! 1) 1 = (Inl ''unlucky'', 2)"
    by (simp_all add: fussy_def)
  from C5_failure_propagates[OF x k, of 0 "[2, 4]" 1 "''unlucky''" 2 "([2, 4], [2, 3])" 1 "''unlucky''" 2] x m v
  show ?thesis by simp
qed

subsection \<open>C1 and C2: one prediction for each input\<close>

lemma apply_xs_regroup:
  assumes "type' self = ''mpn'' \<or> \<not> truthy bsz" "0 < test_batch_size self"
  shows "apply_xs self ids feats bsz sz
           = Inr (map Seq (batches (if type' self = ''mpn'' then ids else feats) (test_batch_size self)))"
  using assms by (auto simp: apply_xs_eq)

lemma apply_xs_given:
  assumes "type' self \<noteq> ''mpn''" "truthy bsz"
  shows "apply_xs self ids feats bsz sz = Inr feats"
  using assms by (simp add: apply_xs_eq)

lemma Model_apply_means_all2:
  assumes "\<forall>xs s. \<exists>ms s'. get_means self (Seq xs) s = (Inr ms, s') \<and> list_all2 R xs ms"
    and "apply_xs self ids feats bsz sz = Inr (map Seq bss)"
  shows "\<exists>means s'. Model_apply self ids feats bsz sz True s = (Inr (means, []), s')
           \<and> length means = length (concat bss) \<and> list_all2 R (concat bss) means"
proof -
  from means_loop_all2[OF assms(1), of bss "[]" s] obtain ms s' where
    l: "means_loop (get_means self) (map Seq bss) [] s = (Inr ms, s')" "list_all2 R (concat bss) ms"
    by auto
  from l(2) have "length ms = length (concat bss)" by (rule list_all2_lengthD[symmetric])
  with l assms(2) show ?thesis by (simp add: Model_apply_xs)
qed

lemma Model_apply_means_vars_all2:
  assumes "\<forall>xs s. \<exists>ms vs s'. get_means_and_vars self (Seq xs) s = (Inr (ms, vs), s')
              \<and> list_all2 R xs ms \<and> list_all2 Q xs vs"
    and "apply_xs self ids feats bsz sz = Inr (map Seq bss)"
  shows "\<exists>means variances s'. Model_apply self ids feats bsz sz False s = (Inr (means, variances), s')
           \<and> length means = length (concat bss) \<and> length variances = length (concat bss)
           \<and> list_all2 R (concat bss) means \<and> list_all2 Q (concat bss) variances"
proof -
  from means_vars_loop_all2[OF assms(1), of bss "[]" "[]" s] obtain ms vs s' where
    l: "means_vars_loop (get_means_and_vars self) (map Seq bss) [] [] s = (Inr (ms, vs), s')"
       "list_all2 R (concat bss) ms" "list_all2 Q (concat bss) vs"
    by auto
  from l(2) have "length ms = length (concat bss)" by (rule list_all2_lengthD[symmetric])
  moreover from l(3) have "length vs = length (concat bss)" by (rule list_all2_lengthD[symmetric])
  ultimately have "length ms = length (concat bss)" "length vs = length (concat bss)" by simp_all
  with l assms(2) show ?thesis by (simp add: Model_apply_xs)
qed

text \<open>
  C1: let every call of \<^verbatim>\<open>get_means\<close> on a sequence return one mean for each input of
  the sequence, the mean at a position standing in the relation \<open>R\<close> to the input at that
  position (with \<open>R\<close> always true this asks for the lengths to agree and no more). Then
  \<^verbatim>\<open>apply\<close> with \<^verbatim>\<open>mean_only = True\<close> returns a pair whose variances are empty and
  whose means are as many as the individual inputs, the mean at each position standing in
  \<open>R\<close> to the input at that position. The individual inputs are the elements of the
  stream when \<^verbatim>\<open>apply\<close> groups it itself (the identifiers for an MPN, the features
  otherwise; the batch size positive), and the elements of the supplied batches, in order,
  when the caller has batched the features.
\<close>

theorem C1_one_mean_per_input:
  assumes "\<forall>xs s. \<exists>ms s'. get_means self (Seq xs) s = (Inr ms, s') \<and> list_all2 R xs ms"
  shows "((type' self = ''mpn'' \<or> \<not> truthy bsz) \<and> 0 < test_batch_size self \<longrightarrow>
           (\<exists>means s'. Model_apply self ids feats bsz sz True s = (Inr (means, []), s')
              \<and> length means = length (if type' self = ''mpn'' then ids else feats)
              \<and> list_all2 R (if type' self = ''mpn'' then ids else feats) means))
       \<and> (type' self \<noteq> ''mpn'' \<and> truthy bsz \<longrightarrow>
           (\<exists>means s'. Model_apply self ids (map Seq bss) bsz sz True s = (Inr (means, []), s')
              \<and> length means = length (concat bss)
              \<and> list_all2 R (concat bss) means))"
proof (intro conjI impI)
  let ?stream = "if type' self = ''mpn'' then ids else feats"
  assume a: "(type' self = ''mpn'' \<or> \<not> truthy bsz) \<and> 0 < test_batch_size self"
  then have "apply_xs self ids feats bsz sz = Inr (map Seq (batches ?stream (test_batch_size self)))"
    by (simp add: apply_xs_regroup)
  from Model_apply_means_all2[OF assms this, of s] a
  show "\<exists>means s'. Model_apply self ids feats bsz sz True s = (Inr (means, []), s')
              \<and> length means = length ?stream \<and> list_all2 R ?stream means"
    by (simp only: concat_batches)
next
  assume "type' self \<noteq> ''mpn'' \<and> truthy bsz"
  then have "apply_xs self ids (map Seq bss) bsz sz = Inr (map Seq bss)"
    by (simp add: apply_xs_given)
  from Model_apply_means_all2[OF assms this, of s]
  show "\<exists>means s'. Model_apply self ids (map Seq bss) bsz sz True s = (Inr (means, []), s')
              \<and> length means = length (concat bss) \<and> list_all2 R (concat bss) means" .
qed

theorem C1_witness:
  "(\<forall>xs s. \<exists>ms s'. get_means doubling (Seq xs) s = (Inr ms, s') \<and> list_all2 (\<lambda>x m. m = mean_of x) xs ms)
   \<and> (type' doubling = ''mpn'' \<or> \<not> truthy None) \<and> 0 < test_batch_size doubling
   \<and> (\<exists>means s'. Model_apply doubling [] [Atom 1, Atom 2, Atom 3] None (Some 3) True 0 = (Inr (means, []), s')
         \<and> length means = 3
         \<and> list_all2 (\<lambda>x m. m = mean_of x) [Atom 1, Atom 2, Atom 3] means)
   \<and> type' doubling \<noteq> ''mpn'' \<and> truthy (Some 2)
   \<and> (\<exists>means s'. Model_apply doubling [] [Seq [Atom 1, Atom 2], Seq [Atom 3]] (Some 2) (Some 3) True 0
                     = (Inr (means, []), s')
         \<and> length means = 3
         \<and> list_all2 (\<lambda>x m. m = mean_of x) [Atom 1, Atom 2, Atom 3] means)"
proof -
  have h: "\<forall>xs s. \<exists>ms s'. get_means doubling (Seq xs) s = (Inr ms, s') \<and> list_all2 (\<lambda>x m. m = mean_of x) xs ms"
    by (simp add: doubling_def list_all2_map2 list_all2_same)
  have t: "type' doubling \<noteq> ''mpn''" "0 < test_batch_size doubling" by (simp_all add: doubling_def)
  from C1_one_mean_per_input[OF h, of None "[]" "[Atom 1, Atom 2, Atom 3]" "Some 3" 0]
    C1_one_mean_per_input[OF h, of "Some 2" "[]" "[]" "Some 3" 0 "[[Atom 1, Atom 2], [Atom 3]]"] h t
  show ?thesis by (simp add: numeral_3_eq_3)
qed

text \<open>
  C2: likewise for \<^verbatim>\<open>mean_only = False\<close>. Let every call of \<^verbatim>\<open>get_means_and_vars\<close>
  return one mean and one variance for each input, related to the input at the same
  position by \<open>R\<close> and by \<open>Q\<close>. Then \<^verbatim>\<open>apply\<close> returns means and variances that are
  both as many as the individual inputs, each related to the input at its position.
\<close>

theorem C2_one_mean_and_variance_per_input:
  assumes "\<forall>xs s. \<exists>ms vs s'. get_means_and_vars self (Seq xs) s = (Inr (ms, vs), s')
              \<and> list_all2 R xs ms \<and> list_all2 Q xs vs"
  shows "((type' self = ''mpn'' \<or> \<not> truthy bsz) \<and> 0 < test_batch_size self \<longrightarrow>
           (\<exists>means variances s'.
              Model_apply self ids feats bsz sz False s = (Inr (means, variances), s')
              \<and> length means = length (if type' self = ''mpn'' then ids else feats)
              \<and> length variances = length (if type' self = ''mpn'' then ids else feats)
              \<and> list_all2 R (if type' self = ''mpn'' then ids else feats) means
              \<and> list_all2 Q (if type' self = ''mpn'' then ids else feats) variances))
       \<and> (type' self \<noteq> ''mpn'' \<and> truthy bsz \<longrightarrow>
           (\<exists>means variances s'.
              Model_apply self ids (map Seq bss) bsz sz False s = (Inr (means, variances), s')
              \<and> length means = length (concat bss)
              \<and> length variances = length (concat bss)
              \<and> list_all2 R (concat bss) means
              \<and> list_all2 Q (concat bss) variances))"
proof (intro conjI impI)
  let ?stream = "if type' self = ''mpn'' then ids else feats"
  assume a: "(type' self = ''mpn'' \<or> \<not> truthy bsz) \<and> 0 < test_batch_size self"
  then have "apply_xs self ids feats bsz sz = Inr (map Seq (batches ?stream (test_batch_size self)))"
    by (simp add: apply_xs_regroup)
  from Model_apply_means_vars_all2[OF assms this, of s] a
  show "\<exists>means variances s'.
              Model_apply self ids feats bsz sz False s = (Inr (means, variances), s')
              \<and> length means = length ?stream \<and> length variances = length ?stream
              \<and> list_all2 R ?stream means \<and> list_all2 Q ?stream variances"
    by (simp only: concat_batches)
next
  assume "type' self \<noteq> ''mpn'' \<and> truthy bsz"
  then have "apply_xs self ids (map Seq bss) bsz sz = Inr (map Seq bss)"
    by (simp add: apply_xs_given)
  from Model_apply_means_vars_all2[OF assms this, of s]
  show "\<exists>means variances s'.
              Model_apply self ids (map Seq bss) bsz sz False s = (Inr (means, variances), s')
              \<and> length means = length (concat bss) \<and> length variances = length (concat bss)
              \<and> list_all2 R (concat bss) means \<and> list_all2 Q (concat bss) variances" .
qed

theorem C2_witness:
  "(\<forall>xs s. \<exists>ms vs s'. get_means_and_vars doubling_mpn (Seq xs) s = (Inr (ms, vs), s')
        \<and> list_all2 (\<lambda>x m. m = mean_of x) xs ms \<and> list_all2 (\<lambda>x v. v = var_of x) xs vs)
   \<and> (type' doubling_mpn = ''mpn'' \<or> \<not> truthy (Some 5)) \<and> 0 < test_batch_size doubling_mpn
   \<and> (\<exists>means variances s'.
         Model_apply doubling_mpn [Atom 1, Atom 2, Atom 3] [] (Some 5) None False 0
           = (Inr (means, variances), s')
         \<and> length means = 3 \<and> length variances = 3
         \<and> list_all2 (\<lambda>x m. m = mean_of x) [Atom 1, Atom 2, Atom 3] means
         \<and> list_all2 (\<lambda>x v. v = var_of x) [Atom 1, Atom 2, Atom 3] variances)
   \<and> (\<forall>xs s. \<exists>ms vs s'. get_means_and_vars doubling (Seq xs) s = (Inr (ms, vs), s')
        \<and> list_all2 (\<lambda>x m. m = mean_of x) xs ms \<and> list_all2 (\<lambda>x v. v = var_of x) xs vs)
   \<and> type' doubling \<noteq> ''mpn'' \<and> truthy (Some 2)
   \<and> (\<exists>means variances s'.
         Model_apply doubling [] [Seq [Atom 1, Atom 2], Seq [Atom 3]] (Some 2) None False 0
           = (Inr (means, variances), s')
         \<and> length means = 3 \<and> length variances = 3
         \<and> list_all2 (\<lambda>x m. m = mean_of x) [Atom 1, Atom 2, Atom 3] means
         \<and> list_all2 (\<lambda>x v. v = var_of x) [Atom 1, Atom 2, Atom 3] variances)"
proof -
  have h: "\<forall>xs s. \<exists>ms vs s'. get_means_and_vars doubling_mpn (Seq xs) s = (Inr (ms, vs), s')
        \<and> list_all2 (\<lambda>x m. m = mean_of x) xs ms \<and> list_all2 (\<lambda>x v. v = var_of x) xs vs"
    by (simp add: doubling_mpn_def doubling_def list_all2_map2 list_all2_same)
  have h': "\<forall>xs s. \<exists>ms vs s'. get_means_and_vars doubling (Seq xs) s = (Inr (ms, vs), s')
        \<and> list_all2 (\<lambda>x m. m = mean_of x) xs ms \<and> list_all2 (\<lambda>x v. v = var_of x) xs vs"
    by (simp add: doubling_def list_all2_map2 list_all2_same)
  have t: "type' doubling_mpn = ''mpn''" "0 < test_batch_size doubling_mpn" "type' doubling \<noteq> ''mpn''"
    by (simp_all add: doubling_mpn_def doubling_def)
  from C2_one_mean_and_variance_per_input[OF h, of "Some 5" "[Atom 1, Atom 2, Atom 3]" "[]" None 0]
    C2_one_mean_and_variance_per_input[OF h', of "Some 2" "[]" "[]" None 0 "[[Atom 1, Atom 2], [Atom 3]]"]
    h h' t
  show ?thesis by (simp add: numeral_3_eq_3)
qed

subsection \<open>C6: batching is lossless\<close>

lemma Model_apply_regroup_pure:
  assumes "\<forall>xs s. get_means self (Seq xs) s = (Inr (map f xs), s)"
    and "\<forall>xs s. get_means_and_vars self (Seq xs) s = (Inr (map f xs, map g xs), s)"
    and "apply_xs self ids feats bsz sz = Inr (map Seq bss)"
  shows "Model_apply self ids feats bsz sz True s = (Inr (map f (concat bss), []), s)"
    and "Model_apply self ids feats bsz sz False s = (Inr (map f (concat bss), map g (concat bss)), s)"
proof -
  from assms(1) have "means_loop (get_means self) (map Seq bss) [] s = (Inr ([] @ map f (concat bss)), s)"
    by (rule means_loop_pure)
  with assms(3) show "Model_apply self ids feats bsz sz True s = (Inr (map f (concat bss), []), s)"
    by (simp add: Model_apply_xs)
  from assms(2) have "means_vars_loop (get_means_and_vars self) (map Seq bss) [] [] s
      = (Inr ([] @ map f (concat bss), [] @ map g (concat bss)), s)"
    by (rule means_vars_loop_pure)
  with assms(3) show "Model_apply self ids feats bsz sz False s
      = (Inr (map f (concat bss), map g (concat bss)), s)"
    by (simp add: Model_apply_xs)
qed

text \<open>
  C6: let the backend be a pure function of each input: on a sequence, \<^verbatim>\<open>get_means\<close>
  returns \<open>map f\<close> of it and \<^verbatim>\<open>get_means_and_vars\<close> returns \<open>map f\<close> and \<open>map g\<close> of
  it, and the state is left alone. Then what \<^verbatim>\<open>apply\<close> returns is what one prediction
  call on the whole sequence of inputs returns, on both paths, whether \<^verbatim>\<open>apply\<close> groups
  the stream itself (batch size positive) or the caller has. When \<^verbatim>\<open>apply\<close> groups the
  stream, the batches laid end to end are the stream again, no batch is empty or longer
  than \<^verbatim>\<open>test_batch_size\<close>, and every batch but the last has exactly
  \<^verbatim>\<open>test_batch_size\<close> elements.
\<close>

theorem C6_batching_is_lossless:
  assumes "\<forall>xs s. get_means self (Seq xs) s = (Inr (map f xs), s)"
    and "\<forall>xs s. get_means_and_vars self (Seq xs) s = (Inr (map f xs, map g xs), s)"
  shows "((type' self = ''mpn'' \<or> \<not> truthy bsz) \<and> 0 < test_batch_size self
            \<and> stream = (if type' self = ''mpn'' then ids else feats) \<longrightarrow>
           (\<exists>means. get_means self (Seq stream) s = (Inr means, s)
              \<and> Model_apply self ids feats bsz sz True s = (Inr (means, []), s))
         \<and> (\<exists>means variances. get_means_and_vars self (Seq stream) s = (Inr (means, variances), s)
              \<and> Model_apply self ids feats bsz sz False s = (Inr (means, variances), s))
         \<and> apply_xs self ids feats bsz sz = Inr (map Seq (batches stream (test_batch_size self)))
         \<and> concat (batches stream (test_batch_size self)) = stream
         \<and> (\<forall>b \<in> set (batches stream (test_batch_size self)).
               b \<noteq> [] \<and> int (length b) \<le> test_batch_size self)
         \<and> (\<forall>b \<in> set (butlast (batches stream (test_batch_size self))).
               int (length b) = test_batch_size self))
       \<and> (type' self \<noteq> ''mpn'' \<and> truthy bsz \<longrightarrow>
           (\<exists>means. get_means self (Seq (concat bss)) s = (Inr means, s)
              \<and> Model_apply self ids (map Seq bss) bsz sz True s = (Inr (means, []), s))
         \<and> (\<exists>means variances.
                get_means_and_vars self (Seq (concat bss)) s = (Inr (means, variances), s)
              \<and> Model_apply self ids (map Seq bss) bsz sz False s = (Inr (means, variances), s)))"
proof (intro conjI impI)
  assume a: "(type' self = ''mpn'' \<or> \<not> truthy bsz) \<and> 0 < test_batch_size self
            \<and> stream = (if type' self = ''mpn'' then ids else feats)"
  let ?B = "batches stream (test_batch_size self)"
  from a show x: "apply_xs self ids feats bsz sz = Inr (map Seq ?B)"
    by (simp add: apply_xs_regroup)
  from a show c: "concat ?B = stream" by (simp add: concat_batches)
  from Model_apply_regroup_pure(1)[OF assms x, of s] c assms(1)
  show "\<exists>means. get_means self (Seq stream) s = (Inr means, s)
            \<and> Model_apply self ids feats bsz sz True s = (Inr (means, []), s)"
    by simp
  from Model_apply_regroup_pure(2)[OF assms x, of s] c assms(2)
  show "\<exists>means variances. get_means_and_vars self (Seq stream) s = (Inr (means, variances), s)
            \<and> Model_apply self ids feats bsz sz False s = (Inr (means, variances), s)"
    by simp
  show "\<forall>b \<in> set ?B. b \<noteq> [] \<and> int (length b) \<le> test_batch_size self"
    by (blast dest: batches_size)
  show "\<forall>b \<in> set (butlast ?B). int (length b) = test_batch_size self"
    by (blast dest: batches_full)
next
  assume "type' self \<noteq> ''mpn'' \<and> truthy bsz"
  then have x: "apply_xs self ids (map Seq bss) bsz sz = Inr (map Seq bss)"
    by (simp add: apply_xs_given)
  from Model_apply_regroup_pure(1)[OF assms x, of s] assms(1)
  show "\<exists>means. get_means self (Seq (concat bss)) s = (Inr means, s)
            \<and> Model_apply self ids (map Seq bss) bsz sz True s = (Inr (means, []), s)"
    by simp
  from Model_apply_regroup_pure(2)[OF assms x, of s] assms(2)
  show "\<exists>means variances.
                get_means_and_vars self (Seq (concat bss)) s = (Inr (means, variances), s)
              \<and> Model_apply self ids (map Seq bss) bsz sz False s = (Inr (means, variances), s)"
    by simp
qed

theorem C6_witness:
  "(\<forall>xs s. get_means table (Seq xs) s = (Inr (map mean_of xs), s))
   \<and> (\<forall>xs s. get_means_and_vars table (Seq xs) s = (Inr (map mean_of xs, map var_of xs), s))
   \<and> 0 < test_batch_size table \<and> (type' table = ''mpn'' \<or> \<not> truthy None)
   \<and> type' table \<noteq> ''mpn'' \<and> truthy (Some 3)
   \<and> get_means table (Seq [Atom 1, Atom 2, Atom 3, Atom 4, Atom 5]) () = (Inr [2, 4, 6, 8, 10], ())
   \<and> Model_apply table [] [Atom 1, Atom 2, Atom 3, Atom 4, Atom 5] None None True ()
       = (Inr ([2, 4, 6, 8, 10], []), ())
   \<and> Model_apply table [] [Atom 1, Atom 2, Atom 3, Atom 4, Atom 5] None None False ()
       = (Inr ([2, 4, 6, 8, 10], [2, 3, 4, 5, 6]), ())
   \<and> batches [Atom 1, Atom 2, Atom 3, Atom 4, Atom (5::nat)] (test_batch_size table)
       = [[Atom 1, Atom 2], [Atom 3, Atom 4], [Atom 5]]
   \<and> Model_apply table [] [Seq [Atom 1, Atom 2, Atom 3], Seq [Atom 4, Atom 5]] (Some 3) None True ()
       = (Inr ([2, 4, 6, 8, 10], []), ())
   \<and> Model_apply table [] [Seq [Atom 1, Atom 2, Atom 3], Seq [Atom 4, Atom 5]] (Some 3) None False ()
       = (Inr ([2, 4, 6, 8, 10], [2, 3, 4, 5, 6]), ())"
proof -
  let ?feats = "[Atom 1, Atom 2, Atom 3, Atom 4, Atom (5::nat)]"
  have h: "\<forall>xs s. get_means table (Seq xs) s = (Inr (map mean_of xs), s)"
    "\<forall>xs s. get_means_and_vars table (Seq xs) s = (Inr (map mean_of xs, map var_of xs), s)"
    by (simp_all add: table_def)
  have t: "0 < test_batch_size table" "type' table = ''mpn'' \<or> \<not> truthy None"
    "type' table \<noteq> ''mpn''" "truthy (Some 3)"
    by (simp_all add: table_def)
  have b: "batches ?feats (test_batch_size table) = [[Atom 1, Atom 2], [Atom 3, Atom 4], [Atom 5]]"
    by (simp add: table_def batches.simps)
  from C6_batching_is_lossless[OF h, of None ?feats "[]" ?feats "()" None "[]"]
    C6_batching_is_lossless[OF h, of "Some 3" "[]" "[]" "[]" "()" None "[[Atom 1, Atom 2, Atom 3], [Atom 4, Atom 5]]"]
    h t b
  show ?thesis by simp
qed

subsection \<open>C4: a stream batched by the caller\<close>

lemma means_loop_cases:
  "(\<exists>ms s'. means_loop gm xs acc s = (Inr ms, s'))
   \<or> (\<exists>k<length xs. \<exists>ms s1 e s2. means_loop gm (take k xs) acc s = (Inr ms, s1)
          \<and> gm (xs ! k) s1 = (Inl e, s2))"
proof (induction xs arbitrary: acc s)
  case Nil
  then show ?case by simp
next
  case (Cons x xs)
  obtain r s' where x: "gm x s = (r, s')" by (cases "gm x s")
  show ?case
  proof (cases r)
    case (Inl e)
    with x have "means_loop gm (take 0 (x # xs)) acc s = (Inr acc, s)
        \<and> gm ((x # xs) ! 0) s = (Inl e, s')" by simp
    then show ?thesis by (intro disjI2 exI[of _ 0]) blast
  next
    case (Inr bm)
    from Cons[of "acc @ bm" s'] show ?thesis
    proof
      assume "\<exists>ms t. means_loop gm xs (acc @ bm) s' = (Inr ms, t)"
      with x Inr show ?thesis by simp
    next
      assume "\<exists>k<length xs. \<exists>ms s1 e s2. means_loop gm (take k xs) (acc @ bm) s' = (Inr ms, s1)
          \<and> gm (xs ! k) s1 = (Inl e, s2)"
      then obtain k ms s1 e s2 where k: "k < length xs"
        "means_loop gm (take k xs) (acc @ bm) s' = (Inr ms, s1)" "gm (xs ! k) s1 = (Inl e, s2)"
        by blast
      with x Inr have "Suc k < length (x # xs)
        \<and> means_loop gm (take (Suc k) (x # xs)) acc s = (Inr ms, s1)
        \<and> gm ((x # xs) ! Suc k) s1 = (Inl e, s2)" by simp
      then show ?thesis by (intro disjI2 exI[of _ "Suc k"]) blast
    qed
  qed
qed

lemma means_vars_loop_cases:
  "(\<exists>r s'. means_vars_loop gmv xs acc vacc s = (Inr r, s'))
   \<or> (\<exists>k<length xs. \<exists>r s1 e s2. means_vars_loop gmv (take k xs) acc vacc s = (Inr r, s1)
          \<and> gmv (xs ! k) s1 = (Inl e, s2))"
proof (induction xs arbitrary: acc vacc s)
  case Nil
  then show ?case by simp
next
  case (Cons x xs)
  obtain r s' where x: "gmv x s = (r, s')" by (cases "gmv x s")
  show ?case
  proof (cases r)
    case (Inl e)
    with x have "means_vars_loop gmv (take 0 (x # xs)) acc vacc s = (Inr (acc, vacc), s)
        \<and> gmv ((x # xs) ! 0) s = (Inl e, s')" by simp
    then show ?thesis by (intro disjI2 exI[of _ 0]) blast
  next
    case (Inr bmv)
    obtain bm bv where bmv: "bmv = (bm, bv)" by (cases bmv)
    from Cons[of "acc @ bm" "vacc @ bv" s'] show ?thesis
    proof
      assume "\<exists>r t. means_vars_loop gmv xs (acc @ bm) (vacc @ bv) s' = (Inr r, t)"
      with x Inr bmv show ?thesis by simp
    next
      assume "\<exists>k<length xs. \<exists>r s1 e s2.
          means_vars_loop gmv (take k xs) (acc @ bm) (vacc @ bv) s' = (Inr r, s1)
          \<and> gmv (xs ! k) s1 = (Inl e, s2)"
      then obtain k r' s1 e s2 where k: "k < length xs"
        "means_vars_loop gmv (take k xs) (acc @ bm) (vacc @ bv) s' = (Inr r', s1)"
        "gmv (xs ! k) s1 = (Inl e, s2)"
        by blast
      with x Inr bmv have "Suc k < length (x # xs)
        \<and> means_vars_loop gmv (take (Suc k) (x # xs)) acc vacc s = (Inr r', s1)
        \<and> gmv ((x # xs) ! Suc k) s1 = (Inl e, s2)" by simp
      then show ?thesis by (intro disjI2 exI[of _ "Suc k"]) blast
    qed
  qed
qed

lemma Model_apply_spied_returns:
  assumes "apply_xs self ids feats bsz sz = Inr xs"
    and "Model_apply self ids feats bsz sz mo s = (Inr r, s')"
  shows "Model_apply (spied self) ids feats bsz sz mo (s, []) = (Inr r, s', xs)"
proof -
  from Model_apply_spied[OF assms(1), of mo s] assms(2) show ?thesis by auto
qed

lemma Model_apply_first_failure:
  assumes "apply_xs self ids feats bsz sz = Inr xs" "k < length xs"
    and "means_loop (get_means self) (take k xs) [] s = (Inr ms, s1)"
    and "get_means self (xs ! k) s1 = (Inl e, s2)"
  shows "Model_apply self ids feats bsz sz True s = (Inl (Raised e), s2)"
    and "Model_apply (spied self) ids feats bsz sz True (s, []) = (Inl (Raised e), s2, take (Suc k) xs)"
proof -
  from assms(2,3,4) have "means_loop (get_means self) xs [] s = (Inl e, s2)"
    by (rule means_loop_fail)
  with assms(1) show "Model_apply self ids feats bsz sz True s = (Inl (Raised e), s2)"
    by (simp add: Model_apply_xs)
  from assms(2,3,4) have "means_loop (spy (get_means self)) xs [] (s, []) = (Inl e, s2, [] @ take (Suc k) xs)"
    by (rule means_loop_spy_fail)
  with assms(1) show "Model_apply (spied self) ids feats bsz sz True (s, []) = (Inl (Raised e), s2, take (Suc k) xs)"
    by (simp add: Model_apply_xs apply_xs_spied spied_methods)
qed

lemma Model_apply_first_failure_vars:
  assumes "apply_xs self ids feats bsz sz = Inr xs" "k < length xs"
    and "means_vars_loop (get_means_and_vars self) (take k xs) [] [] s = (Inr mv, s1)"
    and "get_means_and_vars self (xs ! k) s1 = (Inl e, s2)"
  shows "Model_apply self ids feats bsz sz False s = (Inl (Raised e), s2)"
    and "Model_apply (spied self) ids feats bsz sz False (s, []) = (Inl (Raised e), s2, take (Suc k) xs)"
proof -
  from assms(2,3,4) have "means_vars_loop (get_means_and_vars self) xs [] [] s = (Inl e, s2)"
    by (rule means_vars_loop_fail)
  with assms(1) show "Model_apply self ids feats bsz sz False s = (Inl (Raised e), s2)"
    by (simp add: Model_apply_xs)
  from assms(2,3,4) have "means_vars_loop (spy (get_means_and_vars self)) xs [] [] (s, [])
      = (Inl e, s2, [] @ take (Suc k) xs)"
    by (rule means_vars_loop_spy_fail)
  with assms(1) show "Model_apply (spied self) ids feats bsz sz False (s, []) = (Inl (Raised e), s2, take (Suc k) xs)"
    by (simp add: Model_apply_xs apply_xs_spied spied_methods)
qed

lemma Model_apply_cases:
  assumes "apply_xs self ids feats bsz sz = Inr xs"
  shows "(\<exists>r s'. Model_apply self ids feats bsz sz True s = (Inr r, s'))
         \<or> (\<exists>k<length xs. \<exists>ms s1 e s2.
               means_loop (get_means self) (take k xs) [] s = (Inr ms, s1)
               \<and> get_means self (xs ! k) s1 = (Inl e, s2))"
    and "(\<exists>r s'. Model_apply self ids feats bsz sz False s = (Inr r, s'))
         \<or> (\<exists>k<length xs. \<exists>mv s1 e s2.
               means_vars_loop (get_means_and_vars self) (take k xs) [] [] s = (Inr mv, s1)
               \<and> get_means_and_vars self (xs ! k) s1 = (Inl e, s2))"
proof -
  from means_loop_cases[of "get_means self" xs "[]" s] assms
  show "(\<exists>r s'. Model_apply self ids feats bsz sz True s = (Inr r, s'))
         \<or> (\<exists>k<length xs. \<exists>ms s1 e s2.
               means_loop (get_means self) (take k xs) [] s = (Inr ms, s1)
               \<and> get_means self (xs ! k) s1 = (Inl e, s2))"
    by (auto simp: Model_apply_xs)
  from means_vars_loop_cases[of "get_means_and_vars self" xs "[]" "[]" s] assms
  show "(\<exists>r s'. Model_apply self ids feats bsz sz False s = (Inr r, s'))
         \<or> (\<exists>k<length xs. \<exists>mv s1 e s2.
               means_vars_loop (get_means_and_vars self) (take k xs) [] [] s = (Inr mv, s1)
               \<and> get_means_and_vars self (xs ! k) s1 = (Inl e, s2))"
    by (auto simp: Model_apply_xs)
qed

text \<open>
  The claim C4 has every set \<^verbatim>\<open>batched_size\<close> keep the batches as supplied. A
  \<^verbatim>\<open>batched_size\<close> of 0 is set, and false in line 127: three supplied batches are
  grouped again, two to a batch, and the backend is called twice, on lists of batches.
\<close>

theorem C4_counterexample:
  "snd (snd (Model_apply (spied doubling) [] [Seq [Atom 1], Seq [Atom 2], Seq [Atom 3]] (Some 0) None True (0, [])))
     \<noteq> [Seq [Atom 1], Seq [Atom 2], Seq [Atom 3]]"
  by (simp add: Model_apply_def apply_batching_def doubling_def spied_def spy_apply batches.simps)

text \<open>
  C4, as the code has it: for a model that is not an MPN and a \<^verbatim>\<open>batched_size\<close> that
  is set and not zero, the stream iterated is the feature stream itself, and the prediction
  calls receive its elements as supplied, in order, one call for each element. When
  \<^verbatim>\<open>apply\<close> returns, the calls made are the whole stream. When the calls on the first
  \<open>k\<close> elements return and the call on the next element raises, \<^verbatim>\<open>apply\<close> raises and the
  calls made are exactly the first \<open>k + 1\<close> elements. One of the two is always the case, on
  the path of \<^verbatim>\<open>get_means\<close> and on the path of \<^verbatim>\<open>get_means_and_vars\<close>.
\<close>

theorem C4_given_batches_pass_through:
  assumes "type' self \<noteq> ''mpn''" "truthy bsz"
  shows "apply_xs self ids feats bsz sz = Inr feats
       \<and> (Model_apply self ids feats bsz sz mo s = (Inr r, s')
            \<longrightarrow> Model_apply (spied self) ids feats bsz sz mo (s, []) = (Inr r, s', feats))
       \<and> (k < length feats
            \<and> means_loop (get_means self) (take k feats) [] s = (Inr ms, s1)
            \<and> get_means self (feats ! k) s1 = (Inl e, s2)
            \<longrightarrow> Model_apply self ids feats bsz sz True s = (Inl (Raised e), s2)
              \<and> Model_apply (spied self) ids feats bsz sz True (s, [])
                  = (Inl (Raised e), s2, take (Suc k) feats))
       \<and> (k < length feats
            \<and> means_vars_loop (get_means_and_vars self) (take k feats) [] [] s = (Inr mv, t1)
            \<and> get_means_and_vars self (feats ! k) t1 = (Inl e', t2)
            \<longrightarrow> Model_apply self ids feats bsz sz False s = (Inl (Raised e'), t2)
              \<and> Model_apply (spied self) ids feats bsz sz False (s, [])
                  = (Inl (Raised e'), t2, take (Suc k) feats))
       \<and> ((\<exists>r s'. Model_apply self ids feats bsz sz True s = (Inr r, s'))
            \<or> (\<exists>k<length feats. \<exists>ms s1 e s2.
                  means_loop (get_means self) (take k feats) [] s = (Inr ms, s1)
                  \<and> get_means self (feats ! k) s1 = (Inl e, s2)))
       \<and> ((\<exists>r s'. Model_apply self ids feats bsz sz False s = (Inr r, s'))
            \<or> (\<exists>k<length feats. \<exists>mv s1 e s2.
                  means_vars_loop (get_means_and_vars self) (take k feats) [] [] s = (Inr mv, s1)
                  \<and> get_means_and_vars self (feats ! k) s1 = (Inl e, s2)))"
proof -
  from assms have x: "apply_xs self ids feats bsz sz = Inr feats" by (simp add: apply_xs_eq)
  have 1: "Model_apply self ids feats bsz sz mo s = (Inr r, s')
            \<longrightarrow> Model_apply (spied self) ids feats bsz sz mo (s, []) = (Inr r, s', feats)"
    using Model_apply_spied_returns[OF x] by blast
  have 2: "k < length feats
            \<and> means_loop (get_means self) (take k feats) [] s = (Inr ms, s1)
            \<and> get_means self (feats ! k) s1 = (Inl e, s2)
            \<longrightarrow> Model_apply self ids feats bsz sz True s = (Inl (Raised e), s2)
              \<and> Model_apply (spied self) ids feats bsz sz True (s, [])
                  = (Inl (Raised e), s2, take (Suc k) feats)"
    using Model_apply_first_failure[OF x] by blast
  have 3: "k < length feats
            \<and> means_vars_loop (get_means_and_vars self) (take k feats) [] [] s = (Inr mv, t1)
            \<and> get_means_and_vars self (feats ! k) t1 = (Inl e', t2)
            \<longrightarrow> Model_apply self ids feats bsz sz False s = (Inl (Raised e'), t2)
              \<and> Model_apply (spied self) ids feats bsz sz False (s, [])
                  = (Inl (Raised e'), t2, take (Suc k) feats)"
    using Model_apply_first_failure_vars[OF x] by blast
  note 4 = Model_apply_cases[OF x, of s]
  from x 1 2 3 4 show ?thesis by (intro conjI)
qed

theorem C4_witness:
  "type' doubling \<noteq> ''mpn'' \<and> truthy (Some 1)
   \<and> apply_xs doubling [] [Seq [Atom 1], Seq [Atom 2, Atom 3, Atom 4]] (Some 1) None
       = Inr [Seq [Atom 1], Seq [Atom 2, Atom 3, Atom 4]]
   \<and> Model_apply doubling [] [Seq [Atom 1], Seq [Atom 2, Atom 3, Atom 4]] (Some 1) None True 0
       = (Inr ([2, 4, 6, 8], []), 2)
   \<and> Model_apply (spied doubling) [] [Seq [Atom 1], Seq [Atom 2, Atom 3, Atom 4]] (Some 1) None True (0, [])
       = (Inr ([2, 4, 6, 8], []), 2, [Seq [Atom 1], Seq [Atom 2, Atom 3, Atom 4]])
   \<and> type' fussy \<noteq> ''mpn'' \<and> truthy (Some 2)
   \<and> means_loop (get_means fussy) [Seq [Atom 1]] [] 0 = (Inr [2], 1)
   \<and> get_means fussy (Seq [Atom 13, Atom 4]) 1 = (Inl ''unlucky'', 2)
   \<and> Model_apply (spied fussy) [] [Seq [Atom 1], Seq [Atom 13, Atom 4], Seq [Atom 5]] (Some 2) None True (0, [])
       = (Inl (Raised ''unlucky''), 2, [Seq [Atom 1], Seq [Atom 13, Atom 4]])
   \<and> means_vars_loop (get_means_and_vars fussy) [Seq [Atom 1]] [] [] 0 = (Inr ([2], [2]), 1)
   \<and> get_means_and_vars fussy (Seq [Atom 13, Atom 4]) 1 = (Inl ''unlucky'', 2)
   \<and> Model_apply (spied fussy) [] [Seq [Atom 1], Seq [Atom 13, Atom 4], Seq [Atom 5]] (Some 2) None False (0, [])
       = (Inl (Raised ''unlucky''), 2, [Seq [Atom 1], Seq [Atom 13, Atom 4]])"
proof -
  let ?F = "[Seq [Atom 1], Seq [Atom 13, Atom 4], Seq [Atom (5::nat)]]"
  have t: "type' doubling \<noteq> ''mpn''" by (simp add: doubling_def)
  have b: "truthy (Some 1)" by simp
  have r: "Model_apply doubling [] [Seq [Atom 1], Seq [Atom 2, Atom 3, Atom 4]] (Some 1) None True 0
       = (Inr ([2, 4, 6, 8], []), 2)"
    by (simp add: Model_apply_def apply_batching_def doubling_def)
  have t': "type' fussy \<noteq> ''mpn''" by (simp add: fussy_def)
  have b': "truthy (Some 2)" by simp
  have k: "(1::nat) < length ?F" by simp
  have m: "means_loop (get_means fussy) (take 1 ?F) [] 0 = (Inr [2], 1)"
    "get_means fussy (?F ! 1) 1 = (Inl ''unlucky'', 2)"
    by (simp_all add: fussy_def)
  have v: "means_vars_loop (get_means_and_vars fussy) (take 1 ?F) [] [] 0 = (Inr ([2], [2]), 1)"
    "get_means_and_vars fussy (?F ! 1) 1 = (Inl ''unlucky'', 2)"
    by (simp_all add: fussy_def)
  from C4_given_batches_pass_through[OF t b, where ids = "[]"
      and feats = "[Seq [Atom 1], Seq [Atom 2, Atom 3, Atom 4]]" and sz = None and mo = True and s = 0
      and r = "([2, 4, 6, 8], [])" and s' = 2] r
  have A: "apply_xs doubling [] [Seq [Atom 1], Seq [Atom 2, Atom 3, Atom 4]] (Some 1) None
       = Inr [Seq [Atom 1], Seq [Atom 2, Atom 3, Atom 4]]"
    "Model_apply (spied doubling) [] [Seq [Atom 1], Seq [Atom 2, Atom 3, Atom 4]] (Some 1) None True (0, [])
       = (Inr ([2, 4, 6, 8], []), 2, [Seq [Atom 1], Seq [Atom 2, Atom 3, Atom 4]])"
    by blast+
  from C4_given_batches_pass_through[OF t' b', where ids = "[]" and feats = ?F and sz = None and s = 0
      and k = 1 and ms = "[2]" and ?s1.0 = 1 and e = "''unlucky''" and ?s2.0 = 2
      and mv = "([2], [2])" and ?t1.0 = 1 and e' = "''unlucky''" and ?t2.0 = 2] k m v
  have B: "Model_apply (spied fussy) [] ?F (Some 2) None True (0, [])
       = (Inl (Raised ''unlucky''), 2, take (Suc 1) ?F)"
    "Model_apply (spied fussy) [] ?F (Some 2) None False (0, [])
       = (Inl (Raised ''unlucky''), 2, take (Suc 1) ?F)"
    by blast+
  from t b r A t' b' m v B show ?thesis by simp
qed

end
